theory Spec2Isabelle
  imports Main "HOL-Library.Word"
begin

unbundle bit_operations_syntax

section \<open>The binary decoder of the wire codec runtime\<close>

text \<open>
  The decoder is a mutable JavaScript object; every method below takes the decoder and
  returns the decoder it leaves behind, next to what the call produced. A call either
  returns a value or throws, and the object keeps the fields it had when the exception
  left the method.
\<close>

type_synonym byte = "8 word"

datatype exn = AssertionError | TypeError

datatype 'a outcome = Returned 'a | Threw exn

text \<open>
  \<open>assert\<close> and \<open>fail\<close> are imported from \<open>./goog/asserts\<close>, which is not among
  the sources. All that matters of them here is whether a failed assertion throws or
  returns to the caller, so both answers are parameters of every method that asserts.
\<close>

record asserts =
  assert_throws :: bool
  fail_throws :: bool

record BinaryDecoder =
  this_bytes :: "byte list option"
  this_start :: int
  this_end :: int
  this_cursor :: int
  this_error :: bool

text \<open>\<open>bytes[i]\<close> on a typed array: \<open>undefined\<close> (here \<open>None\<close>) outside the array.\<close>

definition byte_at :: "byte list \<Rightarrow> int \<Rightarrow> byte option" where
  "byte_at bs i = (if 0 \<le> i \<and> i < int (length bs) then Some (bs ! nat i) else None)"

text \<open>
  Comparisons with \<open>undefined\<close> are false both ways, and \<open>undefined & 0x7f\<close> is 0.
\<close>

definition ge128 :: "byte option \<Rightarrow> bool" where
  "ge128 t = (case t of None \<Rightarrow> False | Some b \<Rightarrow> 128 \<le> b)"

definition lt128 :: "byte option \<Rightarrow> bool" where
  "lt128 t = (case t of None \<Rightarrow> False | Some b \<Rightarrow> b < 128)"

definition band :: "byte option \<Rightarrow> 32 word \<Rightarrow> 32 word" where
  "band t m = (case t of None \<Rightarrow> 0 | Some b \<Rightarrow> ucast b AND m)"

definition new_decoder :: BinaryDecoder where
  "new_decoder = \<lparr>this_bytes = None, this_start = 0, this_end = 0, this_cursor = 0, this_error = False\<rparr>"

definition clear :: "BinaryDecoder \<Rightarrow> BinaryDecoder" where
  "clear d = d\<lparr>this_bytes := None, this_start := 0, this_end := 0, this_cursor := 0, this_error := False\<rparr>"

text \<open>
  \<open>setBlock\<close>: the byte source is taken as the byte array it converts to
  (\<open>byteSourceToUint8Array\<close> is not among the sources).
\<close>

definition setBlock :: "byte list \<Rightarrow> int option \<Rightarrow> int option \<Rightarrow> BinaryDecoder \<Rightarrow> BinaryDecoder" where
  "setBlock data opt_start opt_length d =
     (let s = (case opt_start of Some v \<Rightarrow> v | None \<Rightarrow> 0);
          e = (case opt_length of Some l \<Rightarrow> s + l | None \<Rightarrow> int (length data))
      in d\<lparr>this_bytes := Some data, this_start := s, this_end := e, this_cursor := s\<rparr>)"

definition BinaryDecoder_new :: "byte list option \<Rightarrow> int option \<Rightarrow> int option \<Rightarrow> BinaryDecoder" where
  "BinaryDecoder_new opt_bytes opt_start opt_length =
     (case opt_bytes of
        Some data \<Rightarrow> setBlock data opt_start opt_length new_decoder
      | None \<Rightarrow> new_decoder)"

definition atEnd :: "BinaryDecoder \<Rightarrow> bool" where
  "atEnd d = (this_cursor d = this_end d)"

definition pastEnd :: "BinaryDecoder \<Rightarrow> bool" where
  "pastEnd d = (this_cursor d > this_end d)"

definition getError :: "BinaryDecoder \<Rightarrow> bool" where
  "getError d = (this_error d \<or> this_cursor d < 0 \<or> this_cursor d > this_end d)"

subsection \<open>The instance cache\<close>

text \<open>
  \<open>BinaryDecoder.instanceCache_\<close> is a global array; \<open>alloc\<close> pops its last element
  when it has one, \<open>free\<close> clears the decoder and pushes it while the array holds fewer
  than 100.
\<close>

definition alloc ::
  "byte list option \<Rightarrow> int option \<Rightarrow> int option \<Rightarrow> BinaryDecoder list \<Rightarrow>
   BinaryDecoder \<times> BinaryDecoder list" where
  "alloc opt_bytes opt_start opt_length cache =
     (if length cache \<noteq> 0 then
        (let newDecoder = last cache; cache' = butlast cache
         in (case opt_bytes of
               Some data \<Rightarrow> (setBlock data opt_start opt_length newDecoder, cache')
             | None \<Rightarrow> (newDecoder, cache')))
      else (BinaryDecoder_new opt_bytes opt_start opt_length, cache))"

definition free :: "BinaryDecoder \<Rightarrow> BinaryDecoder list \<Rightarrow> BinaryDecoder \<times> BinaryDecoder list" where
  "free d cache =
     (let d' = clear d
      in (d', if length cache < 100 then cache @ [d'] else cache))"

datatype cache_op =
  Alloc "byte list option" "int option" "int option"
| Free BinaryDecoder

fun cache_step :: "BinaryDecoder list \<Rightarrow> cache_op \<Rightarrow> BinaryDecoder list" where
  "cache_step cache (Alloc b s l) = snd (alloc b s l cache)"
| "cache_step cache (Free d) = snd (free d cache)"

definition run_cache :: "cache_op list \<Rightarrow> BinaryDecoder list \<Rightarrow> BinaryDecoder list" where
  "run_cache ops cache = foldl cache_step cache ops"

subsection \<open>Varints\<close>

text \<open>
  \<open>readSplitVarint64\<close>: the first loop reads up to four bytes into \<open>lowBits\<close>, the fifth
  byte straddles both halves, the second loop reads up to five bytes into \<open>highBits\<close>.
  The loop state is the cursor, \<open>temp\<close> and the half being built.
\<close>

function varint_low :: "byte list \<Rightarrow> nat \<Rightarrow> int \<times> byte option \<times> 32 word \<Rightarrow> int \<times> byte option \<times> 32 word" where
  "varint_low bs i (c, temp, lowBits) =
     (if i < 4 \<and> ge128 temp then
        (let t = byte_at bs c
         in varint_low bs (i + 1) (c + 1, t, lowBits OR push_bit (i * 7) (band t 0x7f)))
      else (c, temp, lowBits))"
  by pat_completeness auto
termination
  by (relation "measure (\<lambda>(bs, i, s). 4 - i)") auto

function varint_high :: "byte list \<Rightarrow> nat \<Rightarrow> int \<times> byte option \<times> 32 word \<Rightarrow> int \<times> byte option \<times> 32 word" where
  "varint_high bs i (c, temp, highBits) =
     (if i < 5 \<and> ge128 temp then
        (let t = byte_at bs c
         in varint_high bs (i + 1) (c + 1, t, highBits OR push_bit (i * 7 + 3) (band t 0x7f)))
      else (c, temp, highBits))"
  by pat_completeness auto
termination
  by (relation "measure (\<lambda>(bs, i, s). 5 - i)") auto

declare varint_low.simps [simp del] varint_high.simps [simp del]

text \<open>
  The fields keep their names without the trailing underscore, after \<open>this\<close>.
  On a decoder without a buffer the first \<open>this.bytes_[this.cursor_++]\<close> throws a
  TypeError after the cursor has been incremented. When no terminator was seen,
  \<open>fail\<close> is called first and \<open>error_\<close> is set after it, so only when \<open>fail\<close> returns;
  the method then returns \<open>undefined\<close> (\<open>None\<close>).
\<close>

definition readSplitVarint64 ::
  "asserts \<Rightarrow> (32 word \<Rightarrow> 32 word \<Rightarrow> 'a) \<Rightarrow> BinaryDecoder \<Rightarrow> 'a option outcome \<times> BinaryDecoder" where
  "readSplitVarint64 a convert d =
     (case this_bytes d of
        None \<Rightarrow> (Threw TypeError, d\<lparr>this_cursor := this_cursor d + 1\<rparr>)
      | Some bs \<Rightarrow>
          (let (c1, temp1, lowBits1) = varint_low bs 0 (this_cursor d, Some 128, 0);
               (c2, temp2, lowBits, highBits2) =
                  (if ge128 temp1 then
                     (let t = byte_at bs c1
                      in (c1 + 1, t, lowBits1 OR push_bit 28 (band t 0x7f), drop_bit 4 (band t 0x7f)))
                   else (c1, temp1, lowBits1, 0));
               (c3, temp3, highBits) =
                  (if ge128 temp2 then varint_high bs 0 (c2, temp2, highBits2)
                   else (c2, temp2, highBits2))
           in if lt128 temp3 then (Returned (Some (convert lowBits highBits)), d\<lparr>this_cursor := c3\<rparr>)
              else if fail_throws a then (Threw AssertionError, d\<lparr>this_cursor := c3\<rparr>)
              else (Returned None, d\<lparr>this_cursor := c3, this_error := True\<rparr>)))"

text \<open>
  \<open>readUnsignedVarint32\<close>, unrolled as in the source. \<open>x\<close> is a 32-bit pattern; the
  method returns it as the signed number JavaScript's \<open>|\<close> leaves, except in the
  five-byte branch, which returns \<open>x >>> 0\<close>.
\<close>

definition assert_ret :: "asserts \<Rightarrow> bool \<Rightarrow> 'a \<Rightarrow> BinaryDecoder \<Rightarrow> 'a outcome \<times> BinaryDecoder" where
  "assert_ret a cond v d = (if \<not> cond \<and> assert_throws a then (Threw AssertionError, d) else (Returned v, d))"

text \<open>
  The chain \<open>bytes[this.cursor_++] >= 128 && ...\<close> of five operands: every operand
  evaluated moves the cursor, the first false one ends the chain.
\<close>

fun too_long :: "byte list \<Rightarrow> nat \<Rightarrow> int \<Rightarrow> bool \<times> int" where
  "too_long bs 0 c = (True, c)"
| "too_long bs (Suc n) c = (if ge128 (byte_at bs c) then too_long bs n (c + 1) else (False, c + 1))"

definition readUnsignedVarint32 :: "asserts \<Rightarrow> BinaryDecoder \<Rightarrow> int outcome \<times> BinaryDecoder" where
  "readUnsignedVarint32 a d =
     (case this_bytes d of
        None \<Rightarrow> (Threw TypeError, d)
      | Some bytes \<Rightarrow>
          (let c = this_cursor d;
               t0 = byte_at bytes (c + 0);
               x0 = band t0 0x7f
           in if lt128 t0 then
                (let d' = d\<lparr>this_cursor := c + 1\<rparr> in assert_ret a (this_cursor d' \<le> this_end d') (sint x0) d')
              else
          (let t1 = byte_at bytes (c + 1);
               x1 = x0 OR push_bit 7 (band t1 0x7f)
           in if lt128 t1 then
                (let d' = d\<lparr>this_cursor := c + 2\<rparr> in assert_ret a (this_cursor d' \<le> this_end d') (sint x1) d')
              else
          (let t2 = byte_at bytes (c + 2);
               x2 = x1 OR push_bit 14 (band t2 0x7f)
           in if lt128 t2 then
                (let d' = d\<lparr>this_cursor := c + 3\<rparr> in assert_ret a (this_cursor d' \<le> this_end d') (sint x2) d')
              else
          (let t3 = byte_at bytes (c + 3);
               x3 = x2 OR push_bit 21 (band t3 0x7f)
           in if lt128 t3 then
                (let d' = d\<lparr>this_cursor := c + 4\<rparr> in assert_ret a (this_cursor d' \<le> this_end d') (sint x3) d')
              else
          (let t4 = byte_at bytes (c + 4);
               x4 = x3 OR push_bit 28 (band t4 0x0f)
           in if lt128 t4 then
                (let d' = d\<lparr>this_cursor := c + 5\<rparr> in assert_ret a (this_cursor d' \<le> this_end d') (uint x4) d')
              else
                (let (long, c') = too_long bytes 5 (c + 5);
                     d' = d\<lparr>this_cursor := c'\<rparr>
                 in if long \<and> assert_throws a then (Threw AssertionError, d')
                    else assert_ret a (this_cursor d' \<le> this_end d') (sint x4) d')))))))"

subsection \<open>Raw bytes\<close>

text \<open>
  \<open>TypedArray.prototype.subarray(begin, end)\<close>: a negative index counts from the end of
  the array, both indices are clamped to the array, and an empty range gives an empty view.
  The view is modelled by its contents.
\<close>

definition rel_index :: "nat \<Rightarrow> int \<Rightarrow> nat" where
  "rel_index len i = (if i < 0 then nat (max (int len + i) 0) else nat (min i (int len)))"

definition subarray :: "byte list \<Rightarrow> int \<Rightarrow> int \<Rightarrow> byte list" where
  "subarray bs b e =
     (let b' = rel_index (length bs) b; e' = rel_index (length bs) e
      in take (e' - b') (drop b' bs))"

text \<open>
  \<open>readBytes\<close>: the guard compares with the length of the whole buffer. A negative length
  never touches the buffer; otherwise a decoder without a buffer throws at
  \<open>this.bytes_.length\<close>.
\<close>

definition readBytes_invalid :: "asserts \<Rightarrow> BinaryDecoder \<Rightarrow> byte list outcome \<times> BinaryDecoder" where
  "readBytes_invalid a d =
     (let d' = d\<lparr>this_error := True\<rparr>
      in if fail_throws a then (Threw AssertionError, d') else (Returned [], d'))"

definition readBytes :: "asserts \<Rightarrow> int \<Rightarrow> BinaryDecoder \<Rightarrow> byte list outcome \<times> BinaryDecoder" where
  "readBytes a len d =
     (if len < 0 then readBytes_invalid a d
      else
        (case this_bytes d of
           None \<Rightarrow> (Threw TypeError, d)
         | Some bs \<Rightarrow>
             if this_cursor d + len > int (length bs) then readBytes_invalid a d
             else
               (let result = subarray bs (this_cursor d) (this_cursor d + len);
                    d' = d\<lparr>this_cursor := this_cursor d + len\<rparr>
                in assert_ret a (this_cursor d' \<le> this_end d') result d')))"


subsection \<open>Zigzag\<close>

text \<open>
  \<open>readZigzagVarint32\<close>: \<open>(result >>> 1) ^ -(result & 1)\<close>. The bitwise operators take
  the number to its 32-bit pattern; \<open>^\<close> returns a signed 32-bit number.
\<close>

definition zigzag32 :: "int \<Rightarrow> int" where
  "zigzag32 result =
     (let n = (word_of_int result :: 32 word)
      in sint (drop_bit 1 n XOR (- (n AND 1))))"

definition map_outcome :: "('a \<Rightarrow> 'b) \<Rightarrow> 'a outcome \<times> BinaryDecoder \<Rightarrow> 'b outcome \<times> BinaryDecoder" where
  "map_outcome f r = (case r of (Returned v, d) \<Rightarrow> (Returned (f v), d) | (Threw e, d) \<Rightarrow> (Threw e, d))"

definition readZigzagVarint32 :: "asserts \<Rightarrow> BinaryDecoder \<Rightarrow> int outcome \<times> BinaryDecoder" where
  "readZigzagVarint32 a d = map_outcome zigzag32 (readUnsignedVarint32 a d)"





text \<open>
  Modelled from the spec: \<open>joinZigzag64\<close> of \<open>./utils\<close>, which is not among the
  sources. The spec has the 64-bit zigzag decode "analogous on the two-half
  representation" to the 32-bit formula, followed by the join to a signed integer. The
  result is a JavaScript number: \<open>readZigzagVarint64\<close>'s comment says that precision is
  lost when the absolute value exceeds \<open>2^53\<close>, so the join rounds the exact value to
  the nearest double (ties to the even significand).
\<close>

definition fromZigzag64 :: "32 word \<Rightarrow> 32 word \<Rightarrow> 32 word \<times> 32 word" where
  "fromZigzag64 bitsLow bitsHigh =
     (let signFlipMask = - (bitsLow AND 1)
      in ((drop_bit 1 bitsLow OR push_bit 31 bitsHigh) XOR signFlipMask,
          drop_bit 1 bitsHigh XOR signFlipMask))"

fun bit_length :: "nat \<Rightarrow> nat" where
  "bit_length n = (if n = 0 then 0 else Suc (bit_length (n div 2)))"

definition round53 :: "nat \<Rightarrow> nat" where
  "round53 n =
     (if bit_length n \<le> 53 then n
      else
        (let e = bit_length n - 53; q = n div 2 ^ e; r = n mod 2 ^ e; half = 2 ^ (e - 1)
         in if r < half \<or> (r = half \<and> even q) then q * 2 ^ e else (q + 1) * 2 ^ e))"

definition to_double :: "int \<Rightarrow> int" where
  "to_double i = sgn i * int (round53 (nat \<bar>i\<bar>))"

definition joinInt64 :: "32 word \<Rightarrow> 32 word \<Rightarrow> int" where
  "joinInt64 bitsLow bitsHigh = to_double (sint (word_cat bitsHigh bitsLow :: 64 word))"

definition joinZigzag64 :: "32 word \<Rightarrow> 32 word \<Rightarrow> int" where
  "joinZigzag64 bitsLow bitsHigh = (case fromZigzag64 bitsLow bitsHigh of (l, h) \<Rightarrow> joinInt64 l h)"

definition readZigzagVarint64 :: "asserts \<Rightarrow> BinaryDecoder \<Rightarrow> int option outcome \<times> BinaryDecoder" where
  "readZigzagVarint64 a d = readSplitVarint64 a joinZigzag64 d"

section \<open>The code the emitter writes\<close>

text \<open>
  \<open>writeProtobufSerializers\<close> and \<open>writeJSONSerializers\<close> print JavaScript from the
  IR. Each function of this section is the behaviour of the code printed for one node:
  it takes what the template reads from the IR (the fields of the message, the values
  of the enum) and then the run-time arguments of the printed function. A branch the
  template takes on the IR and a test the printed code makes at run time stand in the
  order the template has them.
\<close>

subsection \<open>JavaScript values\<close>

text \<open>
  Numbers are integers and \<open>NaN\<close>: the printed code tests a number for truthiness and
  compares it with enum values, nothing more. An object is the list of its own
  properties in insertion order; inherited properties are left out.
\<close>

datatype jsval =
  JUndefined
| JNull
| JBool bool
| JNum int
| JNaN
| JStr string
| JBigInt int
| JBytes "byte list"
| JArr "jsval list"
| JObj "(string \<times> jsval) list"

type_synonym obj = "(string \<times> jsval) list"

fun truthy :: "jsval \<Rightarrow> bool" where
  "truthy JUndefined = False"
| "truthy JNull = False"
| "truthy (JBool b) = b"
| "truthy (JNum n) = (n \<noteq> 0)"
| "truthy JNaN = False"
| "truthy (JStr s) = (s \<noteq> [])"
| "truthy (JBigInt n) = (n \<noteq> 0)"
| "truthy (JBytes b) = True"
| "truthy (JArr xs) = True"
| "truthy (JObj kv) = True"

text \<open>\<open>x == undefined\<close>: the two values \<open>??\<close> and \<open>!= undefined\<close> treat as missing.\<close>

fun nullish :: "jsval \<Rightarrow> bool" where
  "nullish JUndefined = True"
| "nullish JNull = True"
| "nullish v = False"

definition obj_get :: "obj \<Rightarrow> string \<Rightarrow> jsval" where
  "obj_get kv k = (case map_of kv k of Some v \<Rightarrow> v | None \<Rightarrow> JUndefined)"

fun obj_set :: "obj \<Rightarrow> string \<Rightarrow> jsval \<Rightarrow> obj" where
  "obj_set [] k v = [(k, v)]"
| "obj_set ((k', v') # kv) k v = (if k' = k then (k, v) # kv else (k', v') # obj_set kv k v)"

text \<open>\<open>x?.length\<close>\<close>

fun opt_length :: "jsval \<Rightarrow> jsval" where
  "opt_length (JStr s) = JNum (int (length s))"
| "opt_length (JBytes b) = JNum (int (length b))"
| "opt_length (JArr xs) = JNum (int (length xs))"
| "opt_length (JObj kv) = obj_get kv ''length''"
| "opt_length v = JUndefined"

text \<open>
  In the printed code a call can throw; where only that matters, the result is an
  \<open>option\<close> and \<open>None\<close> is the exception.
\<close>

definition obind :: "'a option \<Rightarrow> ('a \<Rightarrow> 'b option) \<Rightarrow> 'b option" where
  "obind x f = (case x of None \<Rightarrow> None | Some v \<Rightarrow> f v)"

fun omap :: "('a \<Rightarrow> 'b option) \<Rightarrow> 'a list \<Rightarrow> 'b list option" where
  "omap f [] = Some []"
| "omap f (x # xs) = obind (f x) (\<lambda>y. obind (omap f xs) (\<lambda>ys. Some (y # ys)))"

text \<open>\<open>x.map(fn)\<close>: a TypeError (\<open>None\<close>) unless \<open>x\<close> is an array.\<close>

definition js_map :: "(jsval \<Rightarrow> jsval option) \<Rightarrow> jsval \<Rightarrow> jsval option" where
  "js_map fn x = (case x of JArr xs \<Rightarrow> obind (omap fn xs) (\<lambda>ys. Some (JArr ys)) | _ \<Rightarrow> None)"

subsection \<open>The IR of a field\<close>

text \<open>
  The attributes the templates read. \<open>field.map\<close> is \<open>is_map\<close> and \<open>field.write\<close> is
  \<open>write_tag\<close> here; \<open>defaultValue\<close> is the value of the literal the IR carries.
\<close>

record field =
  name :: string
  protoName :: string
  jsonName :: string
  index :: int
  repeated :: bool
  optional :: bool
  is_map :: bool
  read :: string
  write_tag :: string
  readPacked :: "string option"
  tsType :: string
  tsTypeJSON :: string
  defaultValue :: jsval

subsection \<open>Enum converters\<close>

text \<open>
  \<open>_fromInt\<close> and \<open>_toInt\<close>: a \<open>switch\<close> with one \<open>case\<close> per enumerator in the order of
  the IR, so the first match wins, and a \<open>default\<close> that returns the argument. \<open>switch\<close>
  compares with \<open>===\<close>: a number only matches a number, a string only a string.
\<close>

definition fromInt :: "(string \<times> int) list \<Rightarrow> jsval \<Rightarrow> jsval" where
  "fromInt values i =
     (case i of
        JNum n \<Rightarrow> (case find (\<lambda>(nm, v). v = n) values of Some (nm, v) \<Rightarrow> JStr nm | None \<Rightarrow> i)
      | _ \<Rightarrow> i)"

definition toInt :: "(string \<times> int) list \<Rightarrow> jsval \<Rightarrow> jsval" where
  "toInt values i =
     (case i of
        JStr s \<Rightarrow> (case find (\<lambda>(nm, v). nm = s) values of Some (nm, v) \<Rightarrow> JNum v | None \<Rightarrow> i)
      | _ \<Rightarrow> i)"

subsection \<open>Binary \<open>_writeMessage\<close>\<close>

text \<open>
  The guard printed in front of a field's write. \<open>enums\<close> resolves the name of an enum
  type to its enumerators, as \<open>${field.tsType}._toInt\<close> does in the printed module.
\<close>

definition write_guard :: "(string \<Rightarrow> (string \<times> int) list) \<Rightarrow> field \<Rightarrow> jsval \<Rightarrow> bool" where
  "write_guard enums f v =
     (if repeated f \<or> read f = ''readBytes'' then truthy (opt_length v)
      else if optional f then \<not> nullish v
      else if read f = ''readEnum'' then truthy v \<and> truthy (toInt (enums (tsType f)) v)
      else truthy v)"

text \<open>
  \<open>BinaryWriter\<close> is not among the sources: the writer is the list of the calls made on
  it. A call keeps the method \<open>field.write\<close>, the field number, the argument expression
  applied to the field's value and, for a message, the name of the type whose
  \<open>_writeMessage\<close> is passed along.
\<close>

datatype warg =
  Plain jsval
| MapEntries jsval
| Stringified jsval
| EachStringified jsval
| EachToInt string jsval

record wcall =
  w_method :: string
  w_number :: int
  w_arg :: warg
  w_callback :: "string option"

definition write_call :: "(string \<Rightarrow> (string \<times> int) list) \<Rightarrow> field \<Rightarrow> jsval \<Rightarrow> wcall" where
  "write_call enums f v =
     (if read f = ''readMessage'' then
        \<lparr>w_method = write_tag f, w_number = index f,
         w_arg = (if is_map f then MapEntries v else Plain v),
         w_callback = Some (tsType f)\<rparr>
      else
        \<lparr>w_method = write_tag f, w_number = index f,
         w_arg =
           (if tsType f = ''bigint'' then (if repeated f then EachStringified v else Stringified v)
            else if read f = ''readEnum'' then
              (if repeated f then EachToInt (tsType f) v else Plain (toInt (enums (tsType f)) v))
            else Plain v),
         w_callback = None\<rparr>)"

definition write_field ::
  "(string \<Rightarrow> (string \<times> int) list) \<Rightarrow> obj \<Rightarrow> wcall list \<Rightarrow> field \<Rightarrow> wcall list" where
  "write_field enums msg writer f =
     (let v = obj_get msg (name f)
      in if write_guard enums f v then writer @ [write_call enums f v] else writer)"

definition writeMessage ::
  "(string \<Rightarrow> (string \<times> int) list) \<Rightarrow> field list \<Rightarrow> obj \<Rightarrow> wcall list \<Rightarrow> wcall list" where
  "writeMessage enums content_fields msg writer = foldl (write_field enums msg) writer content_fields"

text \<open>
  \<open>encode\<close>: for a message without fields the printed body is
  \<open>return new Uint8Array()\<close>; otherwise \<open>_writeMessage\<close> runs on a new writer and
  \<open>getResultBuffer\<close> (not among the sources, a parameter) gives the bytes.
\<close>

definition encode ::
  "(wcall list \<Rightarrow> byte list) \<Rightarrow> (string \<Rightarrow> (string \<times> int) list) \<Rightarrow> field list \<Rightarrow> obj \<Rightarrow> byte list" where
  "encode getResultBuffer enums content_fields msg =
     (if length content_fields = 0 then []
      else getResultBuffer (writeMessage enums content_fields msg []))"

text \<open>\<open>initialize\<close>: an object literal with one property per field.\<close>

definition initialize_with :: "(field \<Rightarrow> string) \<Rightarrow> (string \<Rightarrow> jsval) \<Rightarrow> field list \<Rightarrow> obj" where
  "initialize_with type_name initialize_of content_fields =
     foldl (\<lambda>acc f. obj_set acc (name f)
        (if optional f then JUndefined
         else if repeated f then JArr []
         else if read f = ''readMessage'' \<and> \<not> is_map f then initialize_of (type_name f)
         else defaultValue f)) [] content_fields"

text \<open>The binary codec names \<open>field.tsType\<close>, the JSON codec \<open>field.tsTypeJSON\<close>.\<close>

definition initialize :: "(string \<Rightarrow> jsval) \<Rightarrow> field list \<Rightarrow> obj" where
  "initialize = initialize_with tsType"

definition initializeJSON :: "(string \<Rightarrow> jsval) \<Rightarrow> field list \<Rightarrow> obj" where
  "initializeJSON = initialize_with tsTypeJSON"

subsection \<open>JSON \<open>_readMessage\<close>\<close>

text \<open>
  The keys of \<open>getField\<close>: \<open>jsonName\<close>, then \<open>name\<close> unless it is \<open>jsonName\<close>, then
  \<open>protoName\<close> unless it is \<open>name\<close>; the lookups are joined with \<open>??\<close>, which associates
  to the left.
\<close>

definition getField_keys :: "field \<Rightarrow> string list" where
  "getField_keys f =
     [jsonName f]
     @ (if name f \<noteq> jsonName f then [name f] else [])
     @ (if protoName f \<noteq> name f then [protoName f] else [])"

definition nullish_coalesce :: "jsval \<Rightarrow> jsval \<Rightarrow> jsval" where
  "nullish_coalesce a b = (if nullish a then b else a)"

definition getField :: "field \<Rightarrow> obj \<Rightarrow> jsval" where
  "getField f json =
     (case map (obj_get json) (getField_keys f) of
        v # vs \<Rightarrow> foldl nullish_coalesce v vs
      | [] \<Rightarrow> JUndefined)"

text \<open>
  What the printed code calls and the sources do not hold, or holds in the code of
  another node: \<open>initialize\<close> and the JSON \<open>_readMessage\<close> of the type a message field
  names (called with the object to fill and the JSON value, and \<open>map\<close> hands it the
  element and its index), \<open>BigInt\<close>, \<open>decodeBase64Bytes\<close>, and the property key a value
  turns into. \<open>None\<close> is a call that throws.
\<close>

record json_env =
  initialize_of :: "string \<Rightarrow> jsval"
  readMessage_of :: "string \<Rightarrow> jsval \<Rightarrow> jsval \<Rightarrow> jsval option"
  js_BigInt :: "jsval \<Rightarrow> jsval option"
  decodeBase64Bytes :: "jsval \<Rightarrow> jsval option"
  property_key :: "jsval \<Rightarrow> string"

text \<open>
  \<open>Object.entries\<close> of a truthy value: the own properties of an object; the elements of
  an array and the characters of a string under their indices, whose decimal form
  \<open>property_key\<close> gives; nothing for the other values.
\<close>

definition js_entries :: "json_env \<Rightarrow> jsval \<Rightarrow> (string \<times> jsval) list" where
  "js_entries env v =
     (case v of
        JObj kv \<Rightarrow> kv
      | JArr xs \<Rightarrow> map (\<lambda>i. (property_key env (JNum (int i)), xs ! i)) [0..<length xs]
      | JStr s \<Rightarrow> map (\<lambda>i. (property_key env (JNum (int i)), JStr [s ! i])) [0..<length s]
      | _ \<Rightarrow> [])"

text \<open>\<open>toMapMessage\<close>: \<open>Object.entries(x).map(([key, value]) => ({ key, value }))\<close>.\<close>

definition toMapMessage :: "json_env \<Rightarrow> jsval \<Rightarrow> jsval list" where
  "toMapMessage env x = map (\<lambda>(k, v). JObj [(''key'', JStr k), (''value'', v)]) (js_entries env x)"

text \<open>
  \<open>fromMapMessage\<close>: \<open>Object.fromEntries(x.map(({ key, value }) => [key, value]))\<close>.
  Destructuring \<open>undefined\<close> or \<open>null\<close> throws; any other value that is not an object has
  neither property.
\<close>

definition entry_pair :: "json_env \<Rightarrow> jsval \<Rightarrow> (string \<times> jsval) option" where
  "entry_pair env e =
     (case e of
        JObj kv \<Rightarrow> Some (property_key env (obj_get kv ''key''), obj_get kv ''value'')
      | JUndefined \<Rightarrow> None
      | JNull \<Rightarrow> None
      | _ \<Rightarrow> Some (property_key env JUndefined, JUndefined))"

definition fromMapMessage :: "json_env \<Rightarrow> jsval list \<Rightarrow> jsval option" where
  "fromMapMessage env xs =
     obind (omap (entry_pair env) xs) (\<lambda>ps. Some (JObj (foldl (\<lambda>acc (k, v). obj_set acc k v) [] ps)))"

text \<open>\<open>for (const item of x)\<close>: the elements of an array, the characters of a string.\<close>

definition js_iterate :: "jsval \<Rightarrow> jsval list option" where
  "js_iterate x =
     (case x of JArr xs \<Rightarrow> Some xs | JStr s \<Rightarrow> Some (map (\<lambda>c. JStr [c]) s) | _ \<Rightarrow> None)"

text \<open>\<open>msg.f.push(m)\<close>: a TypeError unless \<open>msg.f\<close> is an array.\<close>

definition js_push :: "obj \<Rightarrow> string \<Rightarrow> jsval \<Rightarrow> obj option" where
  "js_push msg k m =
     (case obj_get msg k of JArr xs \<Rightarrow> Some (obj_set msg k (JArr (xs @ [m]))) | _ \<Rightarrow> None)"

fun push_items :: "json_env \<Rightarrow> field \<Rightarrow> obj \<Rightarrow> jsval list \<Rightarrow> obj option" where
  "push_items env f msg [] = Some msg"
| "push_items env f msg (item # items) =
     obind (readMessage_of env (tsTypeJSON f) (initialize_of env (tsType f)) item)
       (\<lambda>m. obind (js_push msg (name f) m) (\<lambda>msg'. push_items env f msg' items))"

text \<open>The body of \<open>if (_f_) { ... }\<close> for one field, \<open>v\<close> the value \<open>getField\<close> selected.\<close>

definition assign_json :: "json_env \<Rightarrow> field \<Rightarrow> obj \<Rightarrow> jsval \<Rightarrow> obj option" where
  "assign_json env f msg v =
     (if read f = ''readMessage'' then
        (if is_map f then
           obind (omap (\<lambda>(e, i). readMessage_of env (tsTypeJSON f) e (JNum (int i)))
                    (zip (toMapMessage env v) [0..<length (toMapMessage env v)]))
             (\<lambda>es. obind (fromMapMessage env es) (\<lambda>m. Some (obj_set msg (name f) m)))
         else if repeated f then
           obind (js_iterate v) (push_items env f msg)
         else
           obind (readMessage_of env (tsTypeJSON f) (initialize_of env (tsType f)) v)
             (\<lambda>m. Some (obj_set msg (name f) m)))
      else if tsType f = ''bigint'' then
        (if repeated f then
           obind (js_map (js_BigInt env) v) (\<lambda>x. Some (obj_set msg (name f) x))
         else obind (js_BigInt env v) (\<lambda>x. Some (obj_set msg (name f) x)))
      else if read f = ''readBytes'' then
        (if repeated f then
           obind (js_map (decodeBase64Bytes env) v) (\<lambda>x. Some (obj_set msg (name f) x))
         else obind (decodeBase64Bytes env v) (\<lambda>x. Some (obj_set msg (name f) x)))
      else Some (obj_set msg (name f) v))"

definition read_field_json :: "json_env \<Rightarrow> obj \<Rightarrow> field \<Rightarrow> obj \<Rightarrow> obj option" where
  "read_field_json env json f msg =
     (let v = getField f json
      in if truthy v then assign_json env f msg v else Some msg)"

fun readMessageJSON :: "json_env \<Rightarrow> field list \<Rightarrow> obj \<Rightarrow> obj \<Rightarrow> obj option" where
  "readMessageJSON env [] msg json = Some msg"
| "readMessageJSON env (f # fs) msg json =
     obind (read_field_json env json f msg) (\<lambda>msg'. readMessageJSON env fs msg' json)"

text \<open>
  The JSON \<open>encode\<close> and \<open>decode\<close>: for a message without fields the printed bodies are
  \<open>return "{}"\<close> and \<open>return {}\<close>. Otherwise they go through \<open>JSON.stringify\<close> and
  \<open>JSON.parse\<close>, which are parameters, as is the JSON \<open>_writeMessage\<close> of the node.
\<close>

definition encodeJSON ::
  "(jsval \<Rightarrow> string option) \<Rightarrow> (obj \<Rightarrow> jsval option) \<Rightarrow> field list \<Rightarrow> obj \<Rightarrow> string option" where
  "encodeJSON stringify writeMessageJSON content_fields msg =
     (if length content_fields = 0 then Some ''{}''
      else obind (writeMessageJSON msg) stringify)"

definition decodeJSON ::
  "(string \<Rightarrow> obj option) \<Rightarrow> json_env \<Rightarrow> field list \<Rightarrow> string \<Rightarrow> obj option" where
  "decodeJSON parse env content_fields json =
     (if length content_fields = 0 then Some []
      else obind (parse json) (readMessageJSON env content_fields (initializeJSON (initialize_of env) content_fields)))"

text \<open>The environment of a field that calls nothing outside the printed function.\<close>

definition closed_env :: json_env where
  "closed_env =
     \<lparr>initialize_of = (\<lambda>t. JUndefined), readMessage_of = (\<lambda>t m j. None),
      js_BigInt = (\<lambda>v. None), decodeBase64Bytes = (\<lambda>v. None), property_key = (\<lambda>v. [])\<rparr>"




text \<open>Fields and an enum for the examples.\<close>

definition enum_E :: "(string \<times> int) list" where
  "enum_E = [(''A'', 0), (''B'', 1)]"



subsection \<open>Binary \<open>_readMessage\<close>\<close>

text \<open>
  Two more methods of the decoder, from the source.
\<close>

definition advance :: "asserts \<Rightarrow> int \<Rightarrow> BinaryDecoder \<Rightarrow> unit outcome \<times> BinaryDecoder" where
  "advance a count d =
     (let d' = d\<lparr>this_cursor := this_cursor d + count\<rparr>
      in assert_ret a (this_cursor d' \<le> this_end d') () d')"

definition continues :: "byte list \<Rightarrow> int \<Rightarrow> bool" where
  "continues bs c = (case byte_at bs c of None \<Rightarrow> False | Some b \<Rightarrow> b AND 0x80 \<noteq> 0)"

function skipVarint_loop :: "byte list \<Rightarrow> int \<Rightarrow> int" where
  "skipVarint_loop bs c = (if continues bs c then skipVarint_loop bs (c + 1) else c)"
  by pat_completeness auto
termination
  by (relation "measure (\<lambda>(bs, c). nat (int (length bs) - c))")
     (auto simp: continues_def byte_at_def split: if_splits)

declare skipVarint_loop.simps [simp del]

definition skipVarint :: "BinaryDecoder \<Rightarrow> unit outcome \<times> BinaryDecoder" where
  "skipVarint d =
     (case this_bytes d of
        None \<Rightarrow> (Threw TypeError, d)
      | Some bs \<Rightarrow> (Returned (), d\<lparr>this_cursor := skipVarint_loop bs (this_cursor d) + 1\<rparr>))"

text \<open>
  Modelled from the spec: \<open>BinaryReader\<close>, which is not among the sources. The spec has
  the reader dispatch on the field number and gives \<open>skipField\<close> by wire type: a varint
  is read until its terminator, a 64-bit value is 8 bytes, a length-delimited value is
  its length and the payload, a 32-bit value is 4 bytes, and groups are not supported.
  \<open>nextField\<close> stops at the end of the block, aborts when the decoder is in error (the
  spec has the top-level decode abort on a wire-format error), and otherwise reads the
  header varint of the wire format: field number \<open>header >>> 3\<close>, wire type
  \<open>header & 7\<close>.
\<close>

record BinaryReader =
  this_decoder :: BinaryDecoder
  this_nextField :: int
  this_nextWireType :: int

definition BinaryReader_new :: "byte list \<Rightarrow> BinaryReader" where
  "BinaryReader_new bytes =
     \<lparr>this_decoder = BinaryDecoder_new (Some bytes) None None,
      this_nextField = - 1, this_nextWireType = - 1\<rparr>"

definition nextField :: "asserts \<Rightarrow> BinaryReader \<Rightarrow> bool outcome \<times> BinaryReader" where
  "nextField a r =
     (if atEnd (this_decoder r) then (Returned False, r)
      else if getError (this_decoder r) then
        (if fail_throws a then (Threw AssertionError, r) else (Returned False, r))
      else
        (case readUnsignedVarint32 a (this_decoder r) of
           (Threw e, d) \<Rightarrow> (Threw e, r\<lparr>this_decoder := d\<rparr>)
         | (Returned header, d) \<Rightarrow>
             (Returned True,
              r\<lparr>this_decoder := d,
                this_nextField := uint (drop_bit 3 (word_of_int header :: 32 word)),
                this_nextWireType := uint ((word_of_int header :: 32 word) AND 7)\<rparr>)))"

definition getFieldNumber :: "BinaryReader \<Rightarrow> int" where
  "getFieldNumber r = this_nextField r"

definition on_decoder ::
  "BinaryReader \<Rightarrow> 'a outcome \<times> BinaryDecoder \<Rightarrow> 'a outcome \<times> BinaryReader" where
  "on_decoder r x = (case x of (res, d) \<Rightarrow> (res, r\<lparr>this_decoder := d\<rparr>))"

definition skipField :: "asserts \<Rightarrow> BinaryReader \<Rightarrow> unit outcome \<times> BinaryReader" where
  "skipField a r =
     (let d = this_decoder r; wireType = this_nextWireType r
      in if wireType = 0 then on_decoder r (skipVarint d)
         else if wireType = 1 then on_decoder r (advance a 8 d)
         else if wireType = 2 then
           (case readUnsignedVarint32 a d of
              (Threw e, d') \<Rightarrow> (Threw e, r\<lparr>this_decoder := d'\<rparr>)
            | (Returned len, d') \<Rightarrow> on_decoder r (advance a len d'))
         else if wireType = 5 then on_decoder r (advance a 4 d)
         else if fail_throws a then (Threw AssertionError, r)
         else (Returned (), r))"

text \<open>
  The printed \<open>_readMessage\<close>: \<open>while (reader.nextField())\<close>, a \<open>switch\<close> on
  \<open>reader.getFieldNumber()\<close> with one \<open>case\<close> per field in the order of the IR, and the
  \<open>default\<close> case \<open>reader.skipField()\<close>. The body of a \<open>case\<close> calls the read methods of
  the reader, which are not among the sources, so the bodies are the parameter
  \<open>case_body\<close>: the field, the message and the reader in, the message and the reader
  out. The loop need not end for every \<open>case_body\<close>; \<open>None\<close> is the run that does not
  return.
\<close>

partial_function (option) readMessage_loop ::
  "asserts \<Rightarrow> (field \<Rightarrow> obj \<Rightarrow> BinaryReader \<Rightarrow> obj outcome \<times> BinaryReader) \<Rightarrow> field list \<Rightarrow>
   obj \<Rightarrow> BinaryReader \<Rightarrow> (obj outcome \<times> BinaryReader) option" where
  "readMessage_loop a case_body content_fields msg reader =
     (case nextField a reader of
        (Threw e, r1) \<Rightarrow> Some (Threw e, r1)
      | (Returned has_next, r1) \<Rightarrow>
          if \<not> has_next then Some (Returned msg, r1)
          else
            (case find (\<lambda>f. index f = getFieldNumber r1) content_fields of
               Some f \<Rightarrow>
                 (case case_body f msg r1 of
                    (Threw e, r2) \<Rightarrow> Some (Threw e, r2)
                  | (Returned msg', r2) \<Rightarrow> readMessage_loop a case_body content_fields msg' r2)
             | None \<Rightarrow>
                 (case skipField a r1 of
                    (Threw e, r2) \<Rightarrow> Some (Threw e, r2)
                  | (Returned u, r2) \<Rightarrow> readMessage_loop a case_body content_fields msg r2)))"

text \<open>For a message without fields the printed \<open>_readMessage\<close> is \<open>return _msg\<close>.\<close>

definition readMessage ::
  "asserts \<Rightarrow> (field \<Rightarrow> obj \<Rightarrow> BinaryReader \<Rightarrow> obj outcome \<times> BinaryReader) \<Rightarrow> field list \<Rightarrow>
   obj \<Rightarrow> BinaryReader \<Rightarrow> (obj outcome \<times> BinaryReader) option" where
  "readMessage a case_body content_fields msg reader =
     (if length content_fields = 0 then Some (Returned msg, reader)
      else readMessage_loop a case_body content_fields msg reader)"

text \<open>
  \<open>decode\<close>: for a message without fields the printed body is \<open>return {}\<close>; otherwise
  \<open>_readMessage\<close> runs on \<open>initialize()\<close> and a new reader over the bytes.
\<close>

definition decode ::
  "asserts \<Rightarrow> (field \<Rightarrow> obj \<Rightarrow> BinaryReader \<Rightarrow> obj outcome \<times> BinaryReader) \<Rightarrow> (string \<Rightarrow> jsval) \<Rightarrow>
   field list \<Rightarrow> byte list \<Rightarrow> obj outcome option" where
  "decode a case_body init_of content_fields bytes =
     (if length content_fields = 0 then Some (Returned [])
      else map_option fst
             (readMessage a case_body content_fields (initialize init_of content_fields)
                (BinaryReader_new bytes)))"


section \<open>Properties of the decoder\<close>

lemma free_length: "length (snd (free d cache)) \<le> max (length cache) 100"
  by (simp add: free_def Let_def)

lemma alloc_length: "length (snd (alloc b s l cache)) \<le> length cache"
  by (simp add: alloc_def Let_def split: option.splits)

lemma cache_step_bound: "length cache \<le> 100 \<Longrightarrow> length (cache_step cache x) \<le> 100"
proof (cases x)
  case (Alloc b s l)
  assume "length cache \<le> 100"
  with alloc_length [of b s l cache] Alloc show ?thesis by simp
next
  case (Free d)
  assume "length cache \<le> 100"
  with free_length [of d cache] Free show ?thesis by simp
qed

lemma run_cache_bound: "length cache \<le> 100 \<Longrightarrow> length (run_cache ops cache) \<le> 100"
  unfolding run_cache_def
  by (induction ops arbitrary: cache) (simp_all add: cache_step_bound)


text \<open>
  C9. The instance cache never holds more than 100 decoders: every sequence of \<open>alloc\<close>
  and \<open>free\<close> calls keeps its length at most 100, from the empty cache of a fresh
  program as from any cache within the bound, and \<open>free\<close> appends the cleared decoder
  exactly when the cache holds fewer than 100.
\<close>

theorem instance_cache_bounded:
  "(length cache \<le> 100 \<longrightarrow> length (run_cache ops cache) \<le> 100) \<and>
   length (run_cache ops []) \<le> 100 \<and>
   free d cache = (clear d, if length cache < 100 then cache @ [clear d] else cache)"
proof -
  have "length (run_cache ops []) \<le> 100" by (rule run_cache_bound) simp
  then show ?thesis by (simp add: run_cache_bound free_def Let_def)
qed

theorem instance_cache_bounded_witness:
  "length (replicate 100 new_decoder) \<le> 100 \<and>
   length (run_cache [Free new_decoder, Alloc None None None, Free new_decoder, Free new_decoder]
             (replicate 100 new_decoder)) \<le> 100 \<and>
   run_cache [Free new_decoder] (replicate 100 new_decoder) = replicate 100 new_decoder"
  using instance_cache_bounded [of "replicate 100 new_decoder"
      "[Free new_decoder, Alloc None None None, Free new_decoder, Free new_decoder]" new_decoder]
  by (simp add: run_cache_def free_def)

subsection \<open>Varints that do not terminate\<close>












subsection \<open>Raw byte reads\<close>

lemma subarray_take_drop:
  "0 \<le> c \<Longrightarrow> 0 \<le> len \<Longrightarrow> c + len \<le> int (length bs) \<Longrightarrow>
   subarray bs c (c + len) = take (nat len) (drop (nat c) bs)"
  by (simp add: subarray_def rel_index_def Let_def min_def nat_diff_distrib nat_add_distrib)

lemma readBytes_invalid_length:
  "len < 0 \<or> (\<exists>bs. this_bytes d = Some bs \<and> this_cursor d + len > int (length bs)) \<Longrightarrow>
   readBytes a len d =
     (if fail_throws a then Threw AssertionError else Returned [], d\<lparr>this_error := True\<rparr>)"
  by (auto simp: readBytes_def readBytes_invalid_def Let_def)

lemma readBytes_in_buffer:
  "this_bytes d = Some bs \<Longrightarrow> 0 \<le> len \<Longrightarrow> this_cursor d + len \<le> int (length bs) \<Longrightarrow>
   readBytes a len d =
     (if assert_throws a \<and> this_cursor d + len > this_end d then Threw AssertionError
      else Returned (subarray bs (this_cursor d) (this_cursor d + len)),
      d\<lparr>this_cursor := this_cursor d + len\<rparr>)"
  by (auto simp: readBytes_def assert_ret_def Let_def)

text \<open>
  C2, as the code has it. The guard of \<open>readBytes\<close> is on the whole buffer, not on
  the block: a negative length, or a length that runs past the end of the buffer, sets
  the error flag, leaves the cursor and calls \<open>fail\<close>; when \<open>fail\<close> returns, the result
  is the empty array. Every other length advances the cursor by exactly that length and
  asserts that the cursor is inside the block; when the assertion holds or does not
  throw, the result is the view from the cursor of that length.
\<close>

theorem readBytes_guard_and_view:
  "(len < 0 \<or> (\<exists>bs. this_bytes d = Some bs \<and> this_cursor d + len > int (length bs)) \<longrightarrow>
      readBytes a len d =
        (if fail_throws a then Threw AssertionError else Returned [], d\<lparr>this_error := True\<rparr>)) \<and>
   (this_bytes d = Some bs \<and> 0 \<le> len \<and> this_cursor d + len \<le> int (length bs) \<longrightarrow>
      readBytes a len d =
        (if assert_throws a \<and> this_cursor d + len > this_end d then Threw AssertionError
         else Returned (subarray bs (this_cursor d) (this_cursor d + len)),
         d\<lparr>this_cursor := this_cursor d + len\<rparr>) \<and>
      (0 \<le> this_cursor d \<longrightarrow>
         subarray bs (this_cursor d) (this_cursor d + len) = take (nat len) (drop (nat (this_cursor d)) bs) \<and>
         int (length (subarray bs (this_cursor d) (this_cursor d + len))) = len))"
proof (intro conjI impI)
  assume "len < 0 \<or> (\<exists>bs. this_bytes d = Some bs \<and> this_cursor d + len > int (length bs))"
  then show "readBytes a len d =
        (if fail_throws a then Threw AssertionError else Returned [], d\<lparr>this_error := True\<rparr>)"
    by (rule readBytes_invalid_length)
next
  assume h: "this_bytes d = Some bs \<and> 0 \<le> len \<and> this_cursor d + len \<le> int (length bs)"
  then show "readBytes a len d =
        (if assert_throws a \<and> this_cursor d + len > this_end d then Threw AssertionError
         else Returned (subarray bs (this_cursor d) (this_cursor d + len)),
         d\<lparr>this_cursor := this_cursor d + len\<rparr>)"
    by (simp add: readBytes_in_buffer)
  assume c: "0 \<le> this_cursor d"
  with h show "subarray bs (this_cursor d) (this_cursor d + len) = take (nat len) (drop (nat (this_cursor d)) bs)"
    by (simp add: subarray_take_drop)
  moreover have "nat len \<le> length bs - nat (this_cursor d)" using h c by linarith
  ultimately show "int (length (subarray bs (this_cursor d) (this_cursor d + len))) = len"
    using h by simp
qed

theorem readBytes_guard_and_view_witness:
  "readBytes \<lparr>assert_throws = True, fail_throws = False\<rparr> (- 1)
      (setBlock [1, 2, 3, 4] (Some 1) (Some 3) new_decoder) =
     (Returned [], (setBlock [1, 2, 3, 4] (Some 1) (Some 3) new_decoder)\<lparr>this_error := True\<rparr>) \<and>
   readBytes \<lparr>assert_throws = True, fail_throws = False\<rparr> 2
      (setBlock [1, 2, 3, 4] (Some 1) (Some 3) new_decoder) =
     (Returned [2, 3], (setBlock [1, 2, 3, 4] (Some 1) (Some 3) new_decoder)\<lparr>this_cursor := 3\<rparr>)"
  using readBytes_guard_and_view [of "- 1" "setBlock [1, 2, 3, 4] (Some 1) (Some 3) new_decoder"
      "\<lparr>assert_throws = True, fail_throws = False\<rparr>" "[1, 2, 3, 4]"]
    readBytes_guard_and_view [of 2 "setBlock [1, 2, 3, 4] (Some 1) (Some 3) new_decoder"
      "\<lparr>assert_throws = True, fail_throws = False\<rparr>" "[1, 2, 3, 4]"]
  by (simp add: setBlock_def new_decoder_def)

text \<open>
  The claim as written fails for a block shorter than its buffer: reading three bytes
  from a block of two inside a buffer of four passes the guard, so the error flag stays
  clear and the three bytes are returned (or the closing assertion throws).
\<close>

theorem readBytes_past_block_end:
  "this_cursor (setBlock [1, 2, 3, 4] (Some 0) (Some 2) new_decoder) + 3
     > this_end (setBlock [1, 2, 3, 4] (Some 0) (Some 2) new_decoder) \<and>
   readBytes \<lparr>assert_throws = False, fail_throws = False\<rparr> 3
       (setBlock [1, 2, 3, 4] (Some 0) (Some 2) new_decoder) =
     (Returned [1, 2, 3],
      \<lparr>this_bytes = Some [1, 2, 3, 4], this_start = 0, this_end = 2, this_cursor = 3,
       this_error = False\<rparr>) \<and>
   readBytes \<lparr>assert_throws = True, fail_throws = True\<rparr> 3
       (setBlock [1, 2, 3, 4] (Some 0) (Some 2) new_decoder) =
     (Threw AssertionError,
      \<lparr>this_bytes = Some [1, 2, 3, 4], this_start = 0, this_end = 2, this_cursor = 3,
       this_error = False\<rparr>)"
  by (simp add: readBytes_def setBlock_def new_decoder_def assert_ret_def subarray_def
      rel_index_def Let_def)

subsection \<open>Zigzag\<close>










lemma bit_length_bound: "n < 2 ^ k \<Longrightarrow> bit_length n \<le> k"
proof (induction k arbitrary: n)
  case 0
  then show ?case by simp
next
  case (Suc k)
  show ?case
  proof (cases "n = 0")
    case True
    then show ?thesis by simp
  next
    case False
    from Suc.prems have "n div 2 < 2 ^ k" by simp
    from Suc.IH [OF this] False show ?thesis by (subst bit_length.simps) simp
  qed
qed

lemma round53_exact: "n \<le> 2 ^ 53 \<Longrightarrow> round53 n = n"
proof (cases "n = 2 ^ 53")
  case True
  have "round53 9007199254740992 = 9007199254740992"
    by (simp add: round53_def Let_def)
  with True show ?thesis by simp
next
  case False
  assume "n \<le> 2 ^ 53"
  with False have "n < 2 ^ 53" by simp
  from bit_length_bound [OF this] show ?thesis by (simp add: round53_def)
qed

lemma to_double_exact: "\<bar>i\<bar> \<le> 2 ^ 53 \<Longrightarrow> to_double i = i"
proof -
  assume a: "\<bar>i\<bar> \<le> 2 ^ 53"
  then have "nat \<bar>i\<bar> \<le> 2 ^ 53" by (simp add: nat_le_iff)
  from round53_exact [OF this] show ?thesis
    by (simp add: to_double_def mult_sgn_abs)
qed


text \<open>The readers on the one-byte varint 3, the zigzag encoding of \<open>-2\<close>.\<close>

lemma readZigzagVarint32_example:
  "readZigzagVarint32 \<lparr>assert_throws = True, fail_throws = True\<rparr> (setBlock [0x03] None None new_decoder) =
     (Returned (- 2), (setBlock [0x03] None None new_decoder)\<lparr>this_cursor := 1\<rparr>)"
  by (simp add: readZigzagVarint32_def map_outcome_def readUnsignedVarint32_def setBlock_def
      new_decoder_def byte_at_def lt128_def band_def assert_ret_def zigzag32_def Let_def)

lemma to_double_small: "to_double (- 2) = - 2"
  by (rule to_double_exact) simp

lemma joinZigzag64_example: "joinZigzag64 3 0 = - 2"
proof -
  have "fromZigzag64 3 0 = (0xFFFFFFFE, 0xFFFFFFFF)" by (simp add: fromZigzag64_def)
  moreover have "sint (word_cat (0xFFFFFFFF :: 32 word) (0xFFFFFFFE :: 32 word) :: 64 word) = - 2"
    by (simp add: word_cat_eq)
  ultimately show ?thesis by (simp add: joinZigzag64_def joinInt64_def to_double_small)
qed

lemma readZigzagVarint64_example:
  "readZigzagVarint64 \<lparr>assert_throws = True, fail_throws = True\<rparr> (setBlock [0x03] None None new_decoder) =
     (Returned (Some (- 2)), (setBlock [0x03] None None new_decoder)\<lparr>this_cursor := 1\<rparr>)"
proof -
  have "varint_low [0x03] 0 (0, Some 128, 0) = (1, Some 3, 3)"
    by (simp add: varint_low.simps [of _ 0] varint_low.simps [of _ "Suc 0"] varint_low.simps [of _ 1]
        ge128_def byte_at_def band_def Let_def)
  then show ?thesis
    by (simp add: readZigzagVarint64_def readSplitVarint64_def setBlock_def new_decoder_def
        ge128_def lt128_def Let_def joinZigzag64_example)
qed






section \<open>Properties of the printed code\<close>

subsection \<open>Enum converters\<close>

lemma find_value_Some:
  "i \<in> snd ` set vals \<Longrightarrow> \<exists>nm. find (\<lambda>(nm, v). v = i) vals = Some (nm, i) \<and> (nm, i) \<in> set vals"
proof (induction "vals")
  case Nil
  then show ?case by simp
next
  case (Cons x xs)
  then show ?case by (cases x) auto
qed

lemma find_value_None: "i \<notin> snd ` set vals \<Longrightarrow> find (\<lambda>(nm, v). v = i) vals = None"
  by (induction "vals") (auto split: prod.splits)

lemma find_name_Some:
  "distinct (map fst vals) \<Longrightarrow> (nm, i) \<in> set vals \<Longrightarrow>
   find (\<lambda>(n, v). n = nm) vals = Some (nm, i)"
proof (induction "vals")
  case Nil
  then show ?case by simp
next
  case (Cons x xs)
  then show ?case by (cases x) (auto simp: image_iff)
qed

text \<open>
  C6. For an enum whose enumerator names are distinct, \<open>_fromInt\<close> of a declared value
  is the name of an enumerator with that value and \<open>_toInt\<close> takes it back to the value;
  \<open>_fromInt\<close> of any other integer is that integer, and \<open>_toInt\<close> leaves it unchanged.
\<close>

theorem enum_converters_roundtrip:
  assumes "distinct (map fst vals)"
  shows "(i \<in> snd ` set vals \<longrightarrow>
           (\<exists>nm. (nm, i) \<in> set vals \<and> fromInt vals (JNum i) = JStr nm) \<and>
           toInt vals (fromInt vals (JNum i)) = JNum i) \<and>
         (i \<notin> snd ` set vals \<longrightarrow>
           fromInt vals (JNum i) = JNum i \<and> toInt vals (fromInt vals (JNum i)) = JNum i)"
proof (intro conjI impI)
  assume d: "i \<in> snd ` set vals"
  from find_value_Some [OF d] obtain nm where
    f: "find (\<lambda>(nm, v). v = i) vals = Some (nm, i)" and m: "(nm, i) \<in> set vals" by blast
  then have fi: "fromInt vals (JNum i) = JStr nm" by (simp add: fromInt_def)
  with m show "\<exists>nm. (nm, i) \<in> set vals \<and> fromInt vals (JNum i) = JStr nm" by blast
  from find_name_Some [OF assms m] fi
  show "toInt vals (fromInt vals (JNum i)) = JNum i" by (simp add: toInt_def)
next
  assume d: "i \<notin> snd ` set vals"
  from find_value_None [OF d] show "fromInt vals (JNum i) = JNum i" by (simp add: fromInt_def)
  then show "toInt vals (fromInt vals (JNum i)) = JNum i" by (simp add: toInt_def)
qed

theorem enum_converters_roundtrip_witness:
  "distinct (map fst enum_E) \<and>
   fromInt enum_E (JNum 1) = JStr ''B'' \<and>
   toInt enum_E (fromInt enum_E (JNum 1)) = JNum 1 \<and>
   fromInt enum_E (JNum 7) = JNum 7 \<and>
   toInt enum_E (fromInt enum_E (JNum 7)) = JNum 7"
  using enum_converters_roundtrip [where vals = enum_E and i = 1]
    enum_converters_roundtrip [where vals = enum_E and i = 7]
  by (simp add: enum_E_def fromInt_def)

subsection \<open>Binary \<open>_writeMessage\<close>\<close>







subsection \<open>JSON \<open>_readMessage\<close>\<close>
















subsection \<open>Messages without fields\<close>

text \<open>
  C7. For a message type with no fields, the binary \<open>encode\<close> returns the empty byte
  sequence for every argument, the binary \<open>decode\<close> returns the empty object for every
  input, the JSON \<open>encode\<close> returns the string \<open>{}\<close>, and the JSON \<open>decode\<close> returns the
  empty object.
\<close>

theorem empty_message_codecs:
  "length fs = 0 \<Longrightarrow>
     encode getResultBuffer enums fs msg = [] \<and>
     decode a case_body init_of fs bytes = Some (Returned []) \<and>
     encodeJSON stringify writeMessageJSON fs msg = Some ''{}'' \<and>
     decodeJSON parse env fs json = Some []"
  by (simp add: encode_def decode_def encodeJSON_def decodeJSON_def)

theorem empty_message_codecs_witness:
  "length ([] :: field list) = 0 \<and>
   encode (\<lambda>w. [1]) (\<lambda>t. enum_E) [] [(''x'', JNum 1)] = [] \<and>
   decode \<lparr>assert_throws = True, fail_throws = True\<rparr> (\<lambda>f m r. (Threw TypeError, r))
      (\<lambda>t. JUndefined) [] [0x08, 0x01] = Some (Returned []) \<and>
   encodeJSON (\<lambda>v. None) (\<lambda>m. None) [] [(''x'', JNum 1)] = Some ''{}''"
  using empty_message_codecs [where fs = "[]" and getResultBuffer = "\<lambda>w. [1]" and enums = "\<lambda>t. enum_E"
      and msg = "[(''x'', JNum 1)]" and a = "\<lparr>assert_throws = True, fail_throws = True\<rparr>"
      and case_body = "\<lambda>f m r. (Threw TypeError, r)" and init_of = "\<lambda>t. JUndefined"
      and bytes = "[0x08, 0x01]" and stringify = "\<lambda>v. None" and writeMessageJSON = "\<lambda>m. None"
      and parse = "\<lambda>s. None" and env = closed_env and json = "[]"]
  by simp

subsection \<open>Unknown fields\<close>













end
